theory Spec2Isabelle
  imports Main "HOL-Library.Word"
begin

section \<open>JavaScript strings and values\<close>

text \<open>
  A JavaScript string is a sequence of UTF-16 code units. The emoji of the tables below lie
  partly outside the Basic Multilingual Plane, so they are written as their code units
  (a surrogate pair for a code point above U+FFFF). \<open>str\<close> turns an ASCII literal into
  its code units.
\<close>

type_synonym jschar = "16 word"
type_synonym jsstring = "jschar list"

definition str :: "string \<Rightarrow> jsstring" where
  "str s = map of_char s"

text \<open>
  \<open>String.prototype.trim\<close> removes the WhiteSpace and LineTerminator code points of
  ECMAScript from both ends: TAB, LF, VT, FF, CR, SP, NBSP, U+1680, U+2000 to U+200A,
  U+2028, U+2029, U+202F, U+205F, U+3000 and U+FEFF.
\<close>

definition isWhiteSpace :: "jschar \<Rightarrow> bool" where
  "isWhiteSpace c = (c \<in> set [0x09, 0x0A, 0x0B, 0x0C, 0x0D, 0x20, 0xA0, 0x1680,
     0x2000, 0x2001, 0x2002, 0x2003, 0x2004, 0x2005, 0x2006, 0x2007, 0x2008, 0x2009, 0x200A,
     0x2028, 0x2029, 0x202F, 0x205F, 0x3000, 0xFEFF])"

definition trim :: "jsstring \<Rightarrow> jsstring" where
  "trim s = rev (dropWhile isWhiteSpace (rev (dropWhile isWhiteSpace s)))"

text \<open>
  The values the lookups of this program produce: \<open>undefined\<close>, \<open>null\<close>, a string, a
  built-in function object (given by its \<open>name\<close>), and the object \<open>Object.prototype\<close>
  itself. The last two arise only from reading an inherited property of an object literal.
\<close>

datatype jsval = Undefined | Null | Str jsstring | Native jsstring | ObjectPrototype

fun truthy :: "jsval \<Rightarrow> bool" where
  "truthy Undefined = False"
| "truthy Null = False"
| "truthy (Str s) = (s \<noteq> [])"
| "truthy (Native n) = True"
| "truthy ObjectPrototype = True"

text \<open>\<open>a || b\<close>: the left operand when it is truthy, the right one otherwise.\<close>

definition js_or :: "jsval \<Rightarrow> jsval \<Rightarrow> jsval" where
  "js_or a b = (if truthy a then a else b)"

text \<open>
  The string a template literal substitutes for a value. A built-in function prints as V8
  (the engine of Node.js) prints it; \<open>Object.prototype\<close> prints through
  \<open>Object.prototype.toString\<close>.
\<close>

fun ToString :: "jsval \<Rightarrow> jsstring" where
  "ToString Undefined = str ''undefined''"
| "ToString Null = str ''null''"
| "ToString (Str s) = s"
| "ToString (Native n) = str ''function '' @ n @ str ''() { [native code] }''"
| "ToString ObjectPrototype = str ''[object Object]''"

text \<open>
  \<open>x || d\<close> where \<open>x\<close> is a property of the request body, a string or absent
  (\<open>undefined\<close>), and \<open>d\<close> a string: the empty string is falsy as \<open>undefined\<close> is.
\<close>

definition or_default :: "jsstring option \<Rightarrow> jsstring \<Rightarrow> jsstring" where
  "or_default x d = (case x of None \<Rightarrow> d | Some s \<Rightarrow> if s = [] then d else s)"

subsection \<open>Property reads on object literals\<close>

text \<open>
  \<open>EMOJI_MAP\<close>, \<open>SECTION_MAP\<close> and \<open>priorityMap\<close> are object literals, and the program
  reads them with \<open>table[key]\<close>. Such a read looks among the object's own properties
  first and then along the prototype chain, which for an object literal is
  \<open>Object.prototype\<close>. Its members in Node.js are the built-in functions below and the
  accessor \<open>__proto__\<close>, which yields \<open>Object.prototype\<close> itself.
\<close>

definition Object_prototype :: "(jsstring \<times> jsval) list" where
  "Object_prototype =
    [(str ''constructor'', Native (str ''Object'')),
     (str ''__defineGetter__'', Native (str ''__defineGetter__'')),
     (str ''__defineSetter__'', Native (str ''__defineSetter__'')),
     (str ''hasOwnProperty'', Native (str ''hasOwnProperty'')),
     (str ''__lookupGetter__'', Native (str ''__lookupGetter__'')),
     (str ''__lookupSetter__'', Native (str ''__lookupSetter__'')),
     (str ''isPrototypeOf'', Native (str ''isPrototypeOf'')),
     (str ''propertyIsEnumerable'', Native (str ''propertyIsEnumerable'')),
     (str ''toString'', Native (str ''toString'')),
     (str ''valueOf'', Native (str ''valueOf'')),
     (str ''__proto__'', ObjectPrototype),
     (str ''toLocaleString'', Native (str ''toLocaleString''))]"

definition getProperty :: "(jsstring \<times> jsstring) list \<Rightarrow> jsstring \<Rightarrow> jsval" where
  "getProperty obj k =
    (case map_of obj k of
       Some v \<Rightarrow> Str v
     | None \<Rightarrow> (case map_of Object_prototype k of Some v \<Rightarrow> v | None \<Rightarrow> Undefined))"

section \<open>The tables\<close>

definition EMOJI_MAP :: "(jsstring \<times> jsstring) list" where
  "EMOJI_MAP =
    [(str ''New Customer Onboarding'', [0xD83C, 0xDD95]),
     (str ''Integration Issue'', [0xD83D, 0xDEE0, 0xFE0F]),
     (str ''Feature Requests'', [0x2728]),
     (str ''Training Requests'', [0xD83D, 0xDCDA]),
     (str ''Account/Billing Question'', [0xD83E, 0xDDFE]),
     (str ''Something else?'', [0x2753])]"

text \<open>\<open>SECTION_MAP\<close> of the variant that stores section GIDs.\<close>

definition SECTION_MAP_gid :: "(jsstring \<times> jsstring) list" where
  "SECTION_MAP_gid =
    [(str ''New Customer Onboarding'', str ''1211512835831277''),
     (str ''Integration Issue'', str ''1211512835831283''),
     (str ''Feature Requests'', str ''1211512835831274''),
     (str ''Training Requests'', str ''1211512835831271''),
     (str ''Account/Billing Question'', str ''1211512835831280''),
     (str ''Something else?'', str ''1211512835831288'')]"

text \<open>\<open>SECTION_MAP\<close> of \<open>server.js\<close>, which stores section names.\<close>

definition SECTION_MAP_byName :: "(jsstring \<times> jsstring) list" where
  "SECTION_MAP_byName =
    [(str ''New Customer Onboarding'', [0xD83C, 0xDD95] @ str '' New Customer Onboarding''),
     (str ''Integration Issue'', [0xD83D, 0xDEE0, 0xFE0F] @ str '' Integration Issue''),
     (str ''Feature Requests'', [0x2728] @ str '' Feature Requests''),
     (str ''Training Requests'', [0xD83D, 0xDCDA] @ str '' Training Requests''),
     (str ''Account/Billing Question'', [0xD83E, 0xDDFE] @ str '' Account/Billing Question''),
     (str ''Something else?'', [0x2753] @ str '' Something Else?'')]"

definition priorityMap :: "(jsstring \<times> jsstring) list" where
  "priorityMap =
    [(str ''Low'', str ''low''),
     (str ''Medium'', str ''medium''),
     (str ''High'', str ''high''),
     (str ''Urgent'', str ''high'')]"

section \<open>Normalisation: \<open>parseFormData\<close>\<close>

text \<open>
  The request body is a key-value record whose six fields are strings, each of them
  optional: \<open>None\<close> is an absent property, which reads as \<open>undefined\<close>. Bodies that
  hold other JSON values are the subject of the section on the webhook below.
\<close>

record body =
  firstName :: "jsstring option"
  lastName :: "jsstring option"
  email :: "jsstring option"
  requestType :: "jsstring option"
  description :: "jsstring option"
  priority :: "jsstring option"

record formData =
  name :: jsstring
  email :: jsstring
  requestType :: jsstring
  description :: jsstring
  priority :: jsstring

definition parseFormData :: "body \<Rightarrow> formData" where
  "parseFormData b =
    \<lparr> formData.name =
        (let full = trim (or_default (firstName b) [] @ str '' '' @ or_default (lastName b) [])
         in if full = [] then str ''Unnamed Request'' else full),
      email = or_default (body.email b) (str ''no-email@provided.com''),
      requestType = or_default (body.requestType b) (str ''General''),
      description = or_default (body.description b) (str ''No description provided''),
      priority = or_default (body.priority b) (str ''Medium'') \<rparr>"

section \<open>Composition: the task data of \<open>createAsanaTask\<close>\<close>

record membership =
  project :: jsval
  "section" :: jsval

text \<open>
  The object under \<open>data\<close> in \<open>taskData\<close>. \<open>memberships\<close> is \<open>None\<close> when the object has
  no such property: spreading a falsy value into an object literal adds nothing.
\<close>

record task_data =
  name :: jsstring
  "notes" :: jsstring
  projects :: "jsval list"
  priority :: jsval
  memberships :: "membership list option"

definition emoji :: "formData \<Rightarrow> jsval" where
  "emoji fd =
    js_or (getProperty EMOJI_MAP (formData.requestType fd))
          (getProperty EMOJI_MAP (str ''Something else?''))"

text \<open>
  The \<open>taskData\<close> constant, given \<open>process.env.ASANA_PROJECT_ID\<close> and the \<open>sectionId\<close>
  the variant has resolved. The line feed of the template is the code unit \<open>0x0A\<close>.
\<close>

definition taskData :: "jsval \<Rightarrow> jsval \<Rightarrow> formData \<Rightarrow> task_data" where
  "taskData ASANA_PROJECT_ID sectionId fd =
    \<lparr> task_data.name = ToString (emoji fd) @ str '' ['' @ formData.requestType fd @ str ''] ''
               @ formData.name fd,
      notes = trim ([0x0A] @ str ''Request from: '' @ formData.email fd
                @ [0x0A] @ str ''Type: '' @ formData.requestType fd
                @ [0x0A] @ str ''Priority: '' @ formData.priority fd
                @ [0x0A, 0x0A] @ str ''Description:''
                @ [0x0A] @ formData.description fd
                @ [0x0A] @ str ''            ''),
      projects = [ASANA_PROJECT_ID],
      priority = js_or (getProperty priorityMap (formData.priority fd)) (Str (str ''medium'')),
      memberships =
        (if truthy sectionId
         then Some [\<lparr> project = ASANA_PROJECT_ID, section = sectionId \<rparr>]
         else None) \<rparr>"

subsection \<open>The variant with section GIDs\<close>

definition sectionId_gid :: "formData \<Rightarrow> jsval" where
  "sectionId_gid fd = js_or (getProperty SECTION_MAP_gid (formData.requestType fd)) Null"

definition taskData_gid :: "jsval \<Rightarrow> formData \<Rightarrow> task_data" where
  "taskData_gid ASANA_PROJECT_ID fd = taskData ASANA_PROJECT_ID (sectionId_gid fd) fd"

subsection \<open>The variant of \<open>server.js\<close>, with section names\<close>

text \<open>
  The outcome of a request to the tracker: the promise of \<open>axios\<close> resolves with the
  data of the response or rejects with a message.
\<close>

datatype 'a promise = Resolved 'a | Rejected jsstring

record asana_section =
  name :: jsstring
  gid :: jsstring

text \<open>
  \<open>getProjectSections\<close> asks the tracker for the sections of the project on every call;
  the reply is a parameter of the model. A rejected request is caught and gives \<open>[]\<close>.
\<close>

definition getProjectSections :: "asana_section list promise \<Rightarrow> asana_section list" where
  "getProjectSections reply = (case reply of Resolved sections \<Rightarrow> sections | Rejected m \<Rightarrow> [])"

definition getSectionIdByName :: "asana_section list promise \<Rightarrow> jsval \<Rightarrow> jsval" where
  "getSectionIdByName reply sectionName =
    (case find (\<lambda>s. Str (asana_section.name s) = sectionName) (getProjectSections reply) of
       None \<Rightarrow> Null
     | Some s \<Rightarrow> Str (gid s))"

definition sectionName :: "formData \<Rightarrow> jsval" where
  "sectionName fd = getProperty SECTION_MAP_byName (formData.requestType fd)"

definition sectionId_byName :: "asana_section list promise \<Rightarrow> formData \<Rightarrow> jsval" where
  "sectionId_byName reply fd =
    (if truthy (sectionName fd) then getSectionIdByName reply (sectionName fd) else Null)"

definition taskData_byName :: "jsval \<Rightarrow> asana_section list promise \<Rightarrow> formData \<Rightarrow> task_data" where
  "taskData_byName ASANA_PROJECT_ID reply fd =
    taskData ASANA_PROJECT_ID (sectionId_byName reply fd) fd"

subsection \<open>\<open>createAsanaTask\<close>\<close>

text \<open>
  \<open>createAsanaTask\<close> builds the task data and posts it. The model returns the list of
  task data it has posted together with its result: the data of the response, or the
  error it throws when the post is rejected.
\<close>

definition createAsanaTask_gid ::
  "jsval \<Rightarrow> (task_data \<Rightarrow> 'r promise) \<Rightarrow> formData \<Rightarrow> task_data list \<times> (jsstring + 'r)" where
  "createAsanaTask_gid ASANA_PROJECT_ID post fd =
    (let td = taskData_gid ASANA_PROJECT_ID fd
     in ([td],
         case post td of
           Resolved r \<Rightarrow> Inr r
         | Rejected m \<Rightarrow> Inl (str ''Failed to create Asana task: '' @ m)))"

definition createAsanaTask_byName ::
  "jsval \<Rightarrow> asana_section list promise \<Rightarrow> (task_data \<Rightarrow> 'r promise) \<Rightarrow> formData
     \<Rightarrow> task_data list \<times> (jsstring + 'r)" where
  "createAsanaTask_byName ASANA_PROJECT_ID reply post fd =
    (let td = taskData_byName ASANA_PROJECT_ID reply fd
     in ([td],
         case post td of
           Resolved r \<Rightarrow> Inr r
         | Rejected m \<Rightarrow> Inl (str ''Failed to create Asana task: '' @ m)))"

section \<open>The trigger: \<open>onFormSubmit\<close>\<close>

text \<open>
  \<open>e.namedValues\<close> maps a question title to the array of its answers. A title that is
  missing is sent as the empty string; an array is truthy even when empty, and then its
  element 0 is \<open>undefined\<close>, a property that \<open>JSON.stringify\<close> leaves out of the
  payload. Without an event or without named values nothing is sent.
\<close>

definition namedValue :: "(jsstring \<rightharpoonup> jsstring list) \<Rightarrow> jsstring \<Rightarrow> jsstring option" where
  "namedValue namedValues title =
    (case namedValues title of
       None \<Rightarrow> Some []
     | Some answers \<Rightarrow> (case answers of [] \<Rightarrow> None | a # rest \<Rightarrow> Some a))"

definition onFormSubmit :: "(jsstring \<rightharpoonup> jsstring list) option \<Rightarrow> body option" where
  "onFormSubmit e =
    (case e of
       None \<Rightarrow> None
     | Some namedValues \<Rightarrow>
         Some \<lparr> firstName = namedValue namedValues (str ''First Name''),
                lastName = namedValue namedValues (str ''Last Name''),
                email = namedValue namedValues (str ''Email''),
                requestType = namedValue namedValues (str ''Request Type''),
                description = namedValue namedValues (str ''Request Description''),
                priority = namedValue namedValues (str ''Priority'') \<rparr>)"

section \<open>The webhook on a parsed JSON body\<close>

text \<open>
  \<open>bodyParser.json()\<close> hands the handler whatever JSON the client has sent, so a field
  of the body may hold any JSON value, not only a string. A number is represented by the
  string \<open>Number.prototype.toString\<close> gives for it; zero, the only falsy number JSON can
  express, prints as \<open>0\<close>. An object is the list of its own properties; the body itself
  is given as such a list, and a body that is an array has none of the six properties.
\<close>

datatype json =
  JNull
| JBool bool
| JNumber jsstring
| JString jsstring
| JArray "json list"
| JObject "(jsstring \<times> json) list"

datatype thrown = TypeError | Error jsstring

fun json_truthy :: "json \<Rightarrow> bool" where
  "json_truthy JNull = False"
| "json_truthy (JBool b) = b"
| "json_truthy (JNumber n) = (n \<noteq> str ''0'')"
| "json_truthy (JString s) = (s \<noteq> [])"
| "json_truthy (JArray xs) = True"
| "json_truthy (JObject ps) = True"

text \<open>
  The conversion to a string that a template literal and a computed property key apply.
  An array joins the conversions of its elements with commas, \<open>null\<close> counting as the
  empty string. An object is converted by its \<open>toString\<close> method: the inherited one gives
  \<open>[object Object]\<close>; an own property \<open>toString\<close>, which in parsed JSON is never a
  function, hides it, the inherited \<open>valueOf\<close> returns the object itself (and an own
  \<open>valueOf\<close> is no function either), and the conversion throws a \<open>TypeError\<close>.
\<close>

fun json_ToString :: "json \<Rightarrow> thrown + jsstring"
  and json_join :: "json list \<Rightarrow> thrown + jsstring" where
  "json_ToString JNull = Inr (str ''null'')"
| "json_ToString (JBool b) = Inr (if b then str ''true'' else str ''false'')"
| "json_ToString (JNumber n) = Inr n"
| "json_ToString (JString s) = Inr s"
| "json_ToString (JArray xs) = json_join xs"
| "json_ToString (JObject ps) =
    (case map_of ps (str ''toString'') of
       None \<Rightarrow> Inr (str ''[object Object]'')
     | Some v \<Rightarrow> Inl TypeError)"
| "json_join [] = Inr []"
| "json_join [x] = (if x = JNull then Inr [] else json_ToString x)"
| "json_join (x # y # ys) =
    (case (if x = JNull then Inr [] else json_ToString x) of
       Inl e \<Rightarrow> Inl e
     | Inr s \<Rightarrow> (case json_join (y # ys) of Inl e \<Rightarrow> Inl e | Inr r \<Rightarrow> Inr (s @ str '','' @ r)))"

text \<open>\<open>x || d\<close> for a property \<open>x\<close> of the body, absent (\<open>undefined\<close>) or a JSON value.\<close>

definition json_or :: "json option \<Rightarrow> json \<Rightarrow> json" where
  "json_or x d = (case x of None \<Rightarrow> d | Some j \<Rightarrow> if json_truthy j then j else d)"

text \<open>
  \<open>parseFormData\<close> on such a body. Only the two names go through a template literal
  here; the other fields are passed on as the values they are.
\<close>

record formData_json =
  name :: jsstring
  email :: json
  requestType :: json
  description :: json
  priority :: json

definition parseFormData_json :: "(jsstring \<times> json) list \<Rightarrow> thrown + formData_json" where
  "parseFormData_json body =
    (case json_ToString (json_or (map_of body (str ''firstName'')) (JString [])) of
       Inl e \<Rightarrow> Inl e
     | Inr first_name \<Rightarrow>
        (case json_ToString (json_or (map_of body (str ''lastName'')) (JString [])) of
           Inl e \<Rightarrow> Inl e
         | Inr last_name \<Rightarrow>
            Inr \<lparr> formData_json.name =
                    (let full = trim (first_name @ str '' '' @ last_name)
                     in if full = [] then str ''Unnamed Request'' else full),
                  email = json_or (map_of body (str ''email'')) (JString (str ''no-email@provided.com'')),
                  requestType = json_or (map_of body (str ''requestType'')) (JString (str ''General'')),
                  description =
                    json_or (map_of body (str ''description'')) (JString (str ''No description provided'')),
                  priority = json_or (map_of body (str ''priority'')) (JString (str ''Medium'')) \<rparr>))"

text \<open>
  \<open>createAsanaTask\<close> uses the fields of \<open>formData\<close> as property keys of the tables and
  inside template literals only, so each of them is converted to a string, which may
  throw; after that it proceeds as on strings. Nothing has been posted when it throws.
\<close>

definition formData_strings :: "formData_json \<Rightarrow> thrown + formData" where
  "formData_strings fd =
    (case json_ToString (formData_json.requestType fd) of
       Inl e \<Rightarrow> Inl e
     | Inr t \<Rightarrow>
    (case json_ToString (formData_json.email fd) of
       Inl e \<Rightarrow> Inl e
     | Inr m \<Rightarrow>
    (case json_ToString (formData_json.priority fd) of
       Inl e \<Rightarrow> Inl e
     | Inr p \<Rightarrow>
    (case json_ToString (formData_json.description fd) of
       Inl e \<Rightarrow> Inl e
     | Inr d \<Rightarrow>
        Inr \<lparr> formData.name = formData_json.name fd, email = m, requestType = t,
              description = d, priority = p \<rparr>))))"

definition createAsanaTask_gid_json ::
  "jsval \<Rightarrow> (task_data \<Rightarrow> 'r promise) \<Rightarrow> formData_json \<Rightarrow> task_data list \<times> (thrown + 'r)" where
  "createAsanaTask_gid_json ASANA_PROJECT_ID post fd =
    (case formData_strings fd of
       Inl e \<Rightarrow> ([], Inl e)
     | Inr strings \<Rightarrow>
        (case createAsanaTask_gid ASANA_PROJECT_ID post strings of
           (posted, Inl m) \<Rightarrow> (posted, Inl (Error m))
         | (posted, Inr r) \<Rightarrow> (posted, Inr r)))"

definition createAsanaTask_byName_json ::
  "jsval \<Rightarrow> asana_section list promise \<Rightarrow> (task_data \<Rightarrow> 'r promise) \<Rightarrow> formData_json
     \<Rightarrow> task_data list \<times> (thrown + 'r)" where
  "createAsanaTask_byName_json ASANA_PROJECT_ID reply post fd =
    (case formData_strings fd of
       Inl e \<Rightarrow> ([], Inl e)
     | Inr strings \<Rightarrow>
        (case createAsanaTask_byName ASANA_PROJECT_ID reply post strings of
           (posted, Inl m) \<Rightarrow> (posted, Inl (Error m))
         | (posted, Inr r) \<Rightarrow> (posted, Inr r)))"

text \<open>
  The handler of \<open>POST /webhook\<close>: it parses, creates the task and answers 200; whatever
  is thrown on the way is caught and answered with 500. The model returns the task data
  posted to the tracker and the status of the answer. A post that resolves is taken to
  carry the task the tracker has created.
\<close>

definition webhook_gid ::
  "jsval \<Rightarrow> (task_data \<Rightarrow> 'r promise) \<Rightarrow> (jsstring \<times> json) list \<Rightarrow> task_data list \<times> nat" where
  "webhook_gid ASANA_PROJECT_ID post body =
    (case parseFormData_json body of
       Inl e \<Rightarrow> ([], 500)
     | Inr fd \<Rightarrow>
        (case createAsanaTask_gid_json ASANA_PROJECT_ID post fd of
           (posted, Inl e) \<Rightarrow> (posted, 500)
         | (posted, Inr r) \<Rightarrow> (posted, 200)))"

definition webhook_byName ::
  "jsval \<Rightarrow> asana_section list promise \<Rightarrow> (task_data \<Rightarrow> 'r promise) \<Rightarrow> (jsstring \<times> json) list
     \<Rightarrow> task_data list \<times> nat" where
  "webhook_byName ASANA_PROJECT_ID reply post body =
    (case parseFormData_json body of
       Inl e \<Rightarrow> ([], 500)
     | Inr fd \<Rightarrow>
        (case createAsanaTask_byName_json ASANA_PROJECT_ID reply post fd of
           (posted, Inl e) \<Rightarrow> (posted, 500)
         | (posted, Inr r) \<Rightarrow> (posted, 200)))"

text \<open>
  A field converts when it is absent or its conversion to a string does not throw.
\<close>

definition converts :: "json option \<Rightarrow> bool" where
  "converts x =
    (case x of
       None \<Rightarrow> True
     | Some j \<Rightarrow> (case json_ToString j of Inl e \<Rightarrow> False | Inr s \<Rightarrow> True))"

text \<open>A body whose fields are strings, as the JSON object the handler receives.\<close>

definition property :: "jsstring \<Rightarrow> jsstring option \<Rightarrow> (jsstring \<times> json) list" where
  "property k x = (case x of None \<Rightarrow> [] | Some s \<Rightarrow> [(k, JString s)])"

definition json_of_body :: "body \<Rightarrow> (jsstring \<times> json) list" where
  "json_of_body b =
    property (str ''firstName'') (firstName b) @ property (str ''lastName'') (lastName b)
    @ property (str ''email'') (body.email b) @ property (str ''requestType'') (body.requestType b)
    @ property (str ''description'') (body.description b)
    @ property (str ''priority'') (body.priority b)"

section \<open>Sample requests\<close>

text \<open>A body with no field at all, and the request of the worked example.\<close>

abbreviation no_fields_body :: body where
  "no_fields_body \<equiv> \<lparr> firstName = None, lastName = None, email = None, requestType = None,
                       description = None, priority = None \<rparr>"

abbreviation sarah :: body where
  "sarah \<equiv> \<lparr> firstName = Some (str ''Sarah''), lastName = Some (str ''Johnson''),
              email = Some (str ''sarah.johnson@example.com''),
              requestType = Some (str ''Feature Requests''),
              description = Some (str ''Add dark mode to dashboard''),
              priority = Some (str ''High'') \<rparr>"

section \<open>Auxiliary facts\<close>

lemmas eval_defs = parseFormData_def taskData_def taskData_gid_def taskData_byName_def
  sectionId_gid_def sectionId_byName_def sectionName_def emoji_def getSectionIdByName_def
  getProjectSections_def getProperty_def js_or_def or_default_def trim_def isWhiteSpace_def
  str_def EMOJI_MAP_def SECTION_MAP_gid_def SECTION_MAP_byName_def priorityMap_def
  Object_prototype_def

lemma trim_blank: "trim (str '' '') = []"
  by (simp add: trim_def isWhiteSpace_def str_def)

section \<open>Totality of the pipeline\<close>

lemma map_of_property:
  "map_of (property k x) k' = (if k' = k then map_option JString x else None)"
  by (simp add: property_def split: option.split)

lemma fields_json_of_body:
  "map_of (json_of_body b) (str ''firstName'') = map_option JString (firstName b)"
  "map_of (json_of_body b) (str ''lastName'') = map_option JString (lastName b)"
  "map_of (json_of_body b) (str ''email'') = map_option JString (body.email b)"
  "map_of (json_of_body b) (str ''requestType'') = map_option JString (body.requestType b)"
  "map_of (json_of_body b) (str ''description'') = map_option JString (body.description b)"
  "map_of (json_of_body b) (str ''priority'') = map_option JString (body.priority b)"
  by (simp_all add: json_of_body_def map_add_def map_of_property str_def split: option.split)

lemma json_or_string:
  "json_or (map_option JString x) (JString d) = JString (or_default x d)"
  by (simp add: json_or_def or_default_def split: option.split)

lemma parseFormData_json_of_body:
  "parseFormData_json (json_of_body b) =
     Inr \<lparr> formData_json.name = formData.name (parseFormData b),
           email = JString (formData.email (parseFormData b)),
           requestType = JString (formData.requestType (parseFormData b)),
           description = JString (formData.description (parseFormData b)),
           priority = JString (formData.priority (parseFormData b)) \<rparr>"
  by (simp add: parseFormData_json_def parseFormData_def fields_json_of_body json_or_string)

lemma formData_strings_of_body:
  "formData_strings
     \<lparr> formData_json.name = formData.name fd, email = JString (formData.email fd),
       requestType = JString (formData.requestType fd),
       description = JString (formData.description fd),
       priority = JString (formData.priority fd) \<rparr> = Inr fd"
  by (simp add: formData_strings_def)

lemma converts_json_or:
  "converts x \<Longrightarrow> \<exists>s. json_ToString (json_or x (JString d)) = Inr s"
  by (auto simp: converts_def json_or_def split: option.splits sum.splits)

lemma webhook_gid_posts:
  "parseFormData_json body = Inr fdj \<Longrightarrow> formData_strings fdj = Inr fd \<Longrightarrow>
   webhook_gid pid post body =
     ([taskData_gid pid fd], case post (taskData_gid pid fd) of Resolved r \<Rightarrow> 200 | Rejected m \<Rightarrow> 500)"
  by (simp add: webhook_gid_def createAsanaTask_gid_json_def createAsanaTask_gid_def Let_def
      split: promise.split)

lemma webhook_byName_posts:
  "parseFormData_json body = Inr fdj \<Longrightarrow> formData_strings fdj = Inr fd \<Longrightarrow>
   webhook_byName pid reply post body =
     ([taskData_byName pid reply fd],
      case post (taskData_byName pid reply fd) of Resolved r \<Rightarrow> 200 | Rejected m \<Rightarrow> 500)"
  by (simp add: webhook_byName_def createAsanaTask_byName_json_def createAsanaTask_byName_def
      Let_def split: promise.split)

lemma parse_converts:
  assumes "converts (map_of body (str ''firstName''))" "converts (map_of body (str ''lastName''))"
  shows "\<exists>fdj. parseFormData_json body = Inr fdj
    \<and> formData_json.email fdj = json_or (map_of body (str ''email'')) (JString (str ''no-email@provided.com''))
    \<and> formData_json.requestType fdj = json_or (map_of body (str ''requestType'')) (JString (str ''General''))
    \<and> formData_json.description fdj
        = json_or (map_of body (str ''description'')) (JString (str ''No description provided''))
    \<and> formData_json.priority fdj = json_or (map_of body (str ''priority'')) (JString (str ''Medium''))"
proof -
  from assms(1) obtain f where f: "json_ToString (json_or (map_of body (str ''firstName'')) (JString [])) = Inr f"
    using converts_json_or by blast
  from assms(2) obtain l where l: "json_ToString (json_or (map_of body (str ''lastName'')) (JString [])) = Inr l"
    using converts_json_or by blast
  show ?thesis by (simp add: parseFormData_json_def f l)
qed

lemma strings_converts:
  assumes "\<exists>s. json_ToString (formData_json.requestType fdj) = Inr s"
    "\<exists>s. json_ToString (formData_json.email fdj) = Inr s"
    "\<exists>s. json_ToString (formData_json.priority fdj) = Inr s"
    "\<exists>s. json_ToString (formData_json.description fdj) = Inr s"
  shows "\<exists>fd. formData_strings fdj = Inr fd"
  using assms by (auto simp: formData_strings_def)

lemma not_converts_json_or:
  "\<not> converts x \<Longrightarrow> \<exists>e. json_ToString (json_or x d) = Inl e"
  by (cases x; cases "the x")
     (auto simp: converts_def json_or_def split: sum.splits option.splits)

lemma webhook_rejects:
  assumes "\<not> (converts (map_of body (str ''firstName'')) \<and> converts (map_of body (str ''lastName''))
    \<and> converts (map_of body (str ''email'')) \<and> converts (map_of body (str ''requestType''))
    \<and> converts (map_of body (str ''description'')) \<and> converts (map_of body (str ''priority'')))"
  shows "webhook_gid pid post body = ([], 500) \<and> webhook_byName pid reply post body = ([], 500)"
proof -
  have fails: "parseFormData_json body = Inr fdj \<Longrightarrow> formData_strings fdj = Inr fd \<Longrightarrow> False"
    for fdj fd
  proof -
    assume p: "parseFormData_json body = Inr fdj" and s: "formData_strings fdj = Inr fd"
    from assms consider
      "\<not> converts (map_of body (str ''firstName''))" | "\<not> converts (map_of body (str ''lastName''))"
      | "\<not> converts (map_of body (str ''email''))" | "\<not> converts (map_of body (str ''requestType''))"
      | "\<not> converts (map_of body (str ''description''))" | "\<not> converts (map_of body (str ''priority''))"
      by blast
    then show False
    proof cases
      case 1
      from not_converts_json_or [OF 1] obtain e
        where "json_ToString (json_or (map_of body (str ''firstName'')) (JString [])) = Inl e"
        by blast
      with p show False by (simp add: parseFormData_json_def)
    next
      case 2
      from not_converts_json_or [OF 2] obtain e
        where "json_ToString (json_or (map_of body (str ''lastName'')) (JString [])) = Inl e"
        by blast
      with p show False by (simp add: parseFormData_json_def split: sum.splits)
    next
      case 3
      from not_converts_json_or [OF 3] obtain e
        where "json_ToString (json_or (map_of body (str ''email''))
                 (JString (str ''no-email@provided.com''))) = Inl e"
        by blast
      with p s show False
        by (auto simp: parseFormData_json_def formData_strings_def split: sum.splits)
    next
      case 4
      from not_converts_json_or [OF 4] obtain e
        where "json_ToString (json_or (map_of body (str ''requestType''))
                 (JString (str ''General''))) = Inl e"
        by blast
      with p s show False
        by (auto simp: parseFormData_json_def formData_strings_def split: sum.splits)
    next
      case 5
      from not_converts_json_or [OF 5] obtain e
        where "json_ToString (json_or (map_of body (str ''description''))
                 (JString (str ''No description provided''))) = Inl e"
        by blast
      with p s show False
        by (auto simp: parseFormData_json_def formData_strings_def split: sum.splits)
    next
      case 6
      from not_converts_json_or [OF 6] obtain e
        where "json_ToString (json_or (map_of body (str ''priority''))
                 (JString (str ''Medium''))) = Inl e"
        by blast
      with p s show False
        by (auto simp: parseFormData_json_def formData_strings_def split: sum.splits)
    qed
  qed
  show ?thesis
  proof (cases "parseFormData_json body")
    case (Inl e)
    then show ?thesis by (simp add: webhook_gid_def webhook_byName_def)
  next
    case (Inr fdj)
    with fails have "\<exists>e. formData_strings fdj = Inl e"
      by (cases "formData_strings fdj") auto
    with Inr show ?thesis
      by (auto simp: webhook_gid_def webhook_byName_def createAsanaTask_gid_json_def
          createAsanaTask_byName_json_def)
  qed
qed

text \<open>
  C1, as the code has it. When each of the six fields of the body is absent or a JSON
  value whose conversion to a string does not throw, the handler parses the body, builds
  the task data and posts exactly one task data to the tracker, in both variants and
  whatever the tracker replies; it answers 500 only when the tracker rejects that post.
  This holds in particular for every body whose fields are strings, and the task data is
  then the one the functions on strings give.
\<close>

theorem webhook_total:
  "(converts (map_of body (str ''firstName'')) \<and> converts (map_of body (str ''lastName''))
    \<and> converts (map_of body (str ''email'')) \<and> converts (map_of body (str ''requestType''))
    \<and> converts (map_of body (str ''description'')) \<and> converts (map_of body (str ''priority''))
    \<longrightarrow> (case parseFormData_json body of
           Inl e \<Rightarrow> False
         | Inr fdj \<Rightarrow>
            (case formData_strings fdj of
               Inl e \<Rightarrow> False
             | Inr fd \<Rightarrow>
                webhook_gid pid post body
                  = ([taskData_gid pid fd],
                     case post (taskData_gid pid fd) of Resolved r \<Rightarrow> 200 | Rejected m \<Rightarrow> 500)
                \<and> webhook_byName pid reply post body
                  = ([taskData_byName pid reply fd],
                     case post (taskData_byName pid reply fd) of
                       Resolved r \<Rightarrow> 200 | Rejected m \<Rightarrow> 500))))
   \<and> webhook_gid pid post (json_of_body b)
       = ([taskData_gid pid (parseFormData b)],
          case post (taskData_gid pid (parseFormData b)) of Resolved r \<Rightarrow> 200 | Rejected m \<Rightarrow> 500)
   \<and> webhook_byName pid reply post (json_of_body b)
       = ([taskData_byName pid reply (parseFormData b)],
          case post (taskData_byName pid reply (parseFormData b)) of
            Resolved r \<Rightarrow> 200 | Rejected m \<Rightarrow> 500)"
proof -
  have general: "case parseFormData_json body of
           Inl e \<Rightarrow> False
         | Inr fdj \<Rightarrow>
            (case formData_strings fdj of
               Inl e \<Rightarrow> False
             | Inr fd \<Rightarrow>
                webhook_gid pid post body
                  = ([taskData_gid pid fd],
                     case post (taskData_gid pid fd) of Resolved r \<Rightarrow> 200 | Rejected m \<Rightarrow> 500)
                \<and> webhook_byName pid reply post body
                  = ([taskData_byName pid reply fd],
                     case post (taskData_byName pid reply fd) of
                       Resolved r \<Rightarrow> 200 | Rejected m \<Rightarrow> 500))"
    if c: "converts (map_of body (str ''firstName''))" "converts (map_of body (str ''lastName''))"
      "converts (map_of body (str ''email''))" "converts (map_of body (str ''requestType''))"
      "converts (map_of body (str ''description''))" "converts (map_of body (str ''priority''))"
  proof -
    from parse_converts [OF c(1) c(2)] obtain fdj where p: "parseFormData_json body = Inr fdj"
      and e: "formData_json.email fdj
          = json_or (map_of body (str ''email'')) (JString (str ''no-email@provided.com''))"
      and t: "formData_json.requestType fdj
          = json_or (map_of body (str ''requestType'')) (JString (str ''General''))"
      and d: "formData_json.description fdj
          = json_or (map_of body (str ''description'')) (JString (str ''No description provided''))"
      and q: "formData_json.priority fdj
          = json_or (map_of body (str ''priority'')) (JString (str ''Medium''))"
      by blast
    have "\<exists>fd. formData_strings fdj = Inr fd"
      by (rule strings_converts) (simp_all add: e t d q converts_json_or c)
    then obtain fd where s: "formData_strings fdj = Inr fd" by blast
    show ?thesis
      by (simp add: p s webhook_gid_posts [OF p s] webhook_byName_posts [OF p s])
  qed
  have strings: "parseFormData_json (json_of_body b) = Inr
     \<lparr> formData_json.name = formData.name (parseFormData b),
           email = JString (formData.email (parseFormData b)),
           requestType = JString (formData.requestType (parseFormData b)),
           description = JString (formData.description (parseFormData b)),
           priority = JString (formData.priority (parseFormData b)) \<rparr>"
    by (rule parseFormData_json_of_body)
  show ?thesis
    using general
    by (simp add: webhook_gid_posts [OF strings formData_strings_of_body]
        webhook_byName_posts [OF strings formData_strings_of_body])
qed

theorem webhook_total_witness:
  "converts (map_of [(str ''firstName'', JString (str ''Sarah'')),
                     (str ''lastName'', JString (str ''Johnson'')),
                     (str ''email'', JNull),
                     (str ''requestType'', JArray [JString (str ''Feature Requests'')]),
                     (str ''priority'', JNumber (str ''2''))] (str ''firstName''))
   \<and> converts (map_of [(str ''firstName'', JString (str ''Sarah'')),
                     (str ''lastName'', JString (str ''Johnson'')),
                     (str ''email'', JNull),
                     (str ''requestType'', JArray [JString (str ''Feature Requests'')]),
                     (str ''priority'', JNumber (str ''2''))] (str ''lastName''))
   \<and> converts (map_of [(str ''firstName'', JString (str ''Sarah'')),
                     (str ''lastName'', JString (str ''Johnson'')),
                     (str ''email'', JNull),
                     (str ''requestType'', JArray [JString (str ''Feature Requests'')]),
                     (str ''priority'', JNumber (str ''2''))] (str ''email''))
   \<and> converts (map_of [(str ''firstName'', JString (str ''Sarah'')),
                     (str ''lastName'', JString (str ''Johnson'')),
                     (str ''email'', JNull),
                     (str ''requestType'', JArray [JString (str ''Feature Requests'')]),
                     (str ''priority'', JNumber (str ''2''))] (str ''requestType''))
   \<and> converts (map_of [(str ''firstName'', JString (str ''Sarah'')),
                     (str ''lastName'', JString (str ''Johnson'')),
                     (str ''email'', JNull),
                     (str ''requestType'', JArray [JString (str ''Feature Requests'')]),
                     (str ''priority'', JNumber (str ''2''))] (str ''description''))
   \<and> converts (map_of [(str ''firstName'', JString (str ''Sarah'')),
                     (str ''lastName'', JString (str ''Johnson'')),
                     (str ''email'', JNull),
                     (str ''requestType'', JArray [JString (str ''Feature Requests'')]),
                     (str ''priority'', JNumber (str ''2''))] (str ''priority''))
   \<and> webhook_gid (Str (str ''1200000000000001'')) Resolved
        [(str ''firstName'', JString (str ''Sarah'')),
         (str ''lastName'', JString (str ''Johnson'')),
         (str ''email'', JNull),
         (str ''requestType'', JArray [JString (str ''Feature Requests'')]),
         (str ''priority'', JNumber (str ''2''))]
     = ([taskData_gid (Str (str ''1200000000000001''))
           \<lparr> formData.name = str ''Sarah Johnson'', email = str ''no-email@provided.com'',
             requestType = str ''Feature Requests'',
             description = str ''No description provided'', priority = str ''2'' \<rparr>], 200)
   \<and> webhook_gid (Str (str ''1200000000000001'')) Resolved (json_of_body sarah)
     = ([taskData_gid (Str (str ''1200000000000001'')) (parseFormData sarah)], 200)"
proof -
  let ?body = "[(str ''firstName'', JString (str ''Sarah'')),
         (str ''lastName'', JString (str ''Johnson'')),
         (str ''email'', JNull),
         (str ''requestType'', JArray [JString (str ''Feature Requests'')]),
         (str ''priority'', JNumber (str ''2''))]"
  have c: "converts (map_of ?body (str ''firstName''))" "converts (map_of ?body (str ''lastName''))"
    "converts (map_of ?body (str ''email''))" "converts (map_of ?body (str ''requestType''))"
    "converts (map_of ?body (str ''description''))" "converts (map_of ?body (str ''priority''))"
    by (simp_all add: converts_def str_def)
  have p: "parseFormData_json ?body = Inr
      \<lparr> formData_json.name = str ''Sarah Johnson'',
        email = JString (str ''no-email@provided.com''),
        requestType = JArray [JString (str ''Feature Requests'')],
        description = JString (str ''No description provided''),
        priority = JNumber (str ''2'') \<rparr>"
    by (simp add: parseFormData_json_def json_or_def trim_def isWhiteSpace_def str_def)
  show ?thesis
    using c webhook_total [where body = ?body and pid = "Str (str ''1200000000000001'')"
        and post = Resolved and b = sarah and reply = "Rejected []"]
    by (simp add: p formData_strings_def)
qed

text \<open>
  A body whose first name is an object with an own property \<open>toString\<close>: the template
  literal of \<open>parseFormData\<close> throws, nothing is posted and the answer is 500.
\<close>

theorem webhook_total_counterexample:
  "parseFormData_json [(str ''firstName'', JObject [(str ''toString'', JNumber (str ''1''))])]
     = Inl TypeError
   \<and> webhook_gid (Str (str ''1200000000000001'')) Resolved
        [(str ''firstName'', JObject [(str ''toString'', JNumber (str ''1''))])] = ([], 500)
   \<and> webhook_byName (Str (str ''1200000000000001'')) (Rejected []) Resolved
        [(str ''firstName'', JObject [(str ''toString'', JNumber (str ''1''))])] = ([], 500)"
  by (simp add: webhook_gid_def webhook_byName_def parseFormData_json_def json_or_def)

section \<open>Defaults of the normalisation\<close>

text \<open>
  C2. For every request body, \<open>parseFormData\<close> puts a default in the place of each
  absent field: the name is \<open>Unnamed Request\<close> when first and last name are both absent,
  the email \<open>no-email@provided.com\<close>, the request type \<open>General\<close>, the description
  \<open>No description provided\<close> and the priority \<open>Medium\<close>. No absence is an error: the
  function returns a record for every body.
\<close>

theorem parseFormData_defaults:
  "(firstName b = None \<and> lastName b = None \<longrightarrow>
      formData.name (parseFormData b) = str ''Unnamed Request'')
   \<and> (body.email b = None \<longrightarrow> formData.email (parseFormData b) = str ''no-email@provided.com'')
   \<and> (body.requestType b = None \<longrightarrow> formData.requestType (parseFormData b) = str ''General'')
   \<and> (body.description b = None \<longrightarrow>
        formData.description (parseFormData b) = str ''No description provided'')
   \<and> (body.priority b = None \<longrightarrow> formData.priority (parseFormData b) = str ''Medium'')"
  by (simp add: parseFormData_def or_default_def trim_blank)

theorem parseFormData_defaults_witness:
  "parseFormData no_fields_body
   = \<lparr> formData.name = str ''Unnamed Request'', email = str ''no-email@provided.com'',
       requestType = str ''General'', description = str ''No description provided'',
       priority = str ''Medium'' \<rparr>"
  using parseFormData_defaults [of no_fields_body]
  by (simp add: formData.equality)

section \<open>Lookup of the request type\<close>

lemma getProperty_unmapped:
  "k \<notin> fst ` set obj \<Longrightarrow> k \<notin> fst ` set Object_prototype \<Longrightarrow> getProperty obj k = Undefined"
  by (simp add: getProperty_def map_of_eq_None_iff [THEN iffD2])

lemma keys_SECTION_MAP:
  "fst ` set SECTION_MAP_gid = fst ` set EMOJI_MAP"
  "fst ` set SECTION_MAP_byName = fst ` set EMOJI_MAP"
  by (simp_all add: SECTION_MAP_gid_def SECTION_MAP_byName_def EMOJI_MAP_def)

lemma fallback_marker: "getProperty EMOJI_MAP (str ''Something else?'') = Str [0x2753]"
  by (simp add: getProperty_def EMOJI_MAP_def str_def)

text \<open>
  A request type that is neither one of the six keys nor the name of a member of
  \<open>Object.prototype\<close> gets the marker of \<open>Something else?\<close> and no section, in both
  variants.
\<close>

lemma lookup_unmapped:
  assumes "formData.requestType fd \<notin> fst ` set EMOJI_MAP"
    and "formData.requestType fd \<notin> fst ` set Object_prototype"
  shows "emoji fd = Str [0x2753]" and "sectionId_gid fd = Null"
    and "sectionId_byName reply fd = Null"
  using assms
  by (simp_all add: emoji_def sectionId_gid_def sectionId_byName_def sectionName_def
      getProperty_unmapped keys_SECTION_MAP js_or_def fallback_marker)

text \<open>
  C3. Every request type that is not a key of the tables should get the marker of
  \<open>Something else?\<close> and the section id \<open>null\<close>. The request type \<open>constructor\<close> is
  not a key of \<open>EMOJI_MAP\<close> or \<open>SECTION_MAP\<close>, yet both reads find the inherited
  \<open>Object.prototype.constructor\<close>: the marker is the function \<open>Object\<close>, which the title
  prints as source text, and in the variant with GIDs the section id is that function
  too. In \<open>server.js\<close> the function is taken for a section name, which no section of the
  tracker bears, so the section id is \<open>null\<close> there.
\<close>

theorem lookup_inherited_key:
  "map_of EMOJI_MAP (str ''constructor'') = None
   \<and> map_of SECTION_MAP_gid (str ''constructor'') = None
   \<and> map_of SECTION_MAP_byName (str ''constructor'') = None
   \<and> emoji (parseFormData (no_fields_body\<lparr>body.requestType := Some (str ''constructor'')\<rparr>))
       = Native (str ''Object'')
   \<and> sectionId_gid (parseFormData (no_fields_body\<lparr>body.requestType := Some (str ''constructor'')\<rparr>))
       = Native (str ''Object'')
   \<and> sectionId_byName reply
         (parseFormData (no_fields_body\<lparr>body.requestType := Some (str ''constructor'')\<rparr>))
       = Null
   \<and> task_data.name (taskData_gid pid
         (parseFormData (no_fields_body\<lparr>body.requestType := Some (str ''constructor'')\<rparr>)))
       = str ''function Object() { [native code] } [constructor] Unnamed Request''"
  by (simp add: eval_defs find_None_iff [THEN iffD2] split: promise.split)

section \<open>The title\<close>

text \<open>
  For a request type that is not the name of a member of \<open>Object.prototype\<close> the title
  is the marker of the request type (the one of \<open>Something else?\<close> when it is not a key
  of \<open>EMOJI_MAP\<close>), the request type in square brackets and the full name: first and last
  name joined by a space and trimmed, or \<open>Unnamed Request\<close> when nothing is left.
\<close>

lemma title_marker:
  assumes "formData.requestType (parseFormData b) \<notin> fst ` set Object_prototype"
  shows "task_data.name (taskData pid sid (parseFormData b))
     = (case map_of EMOJI_MAP (formData.requestType (parseFormData b)) of
          Some marker \<Rightarrow> marker | None \<Rightarrow> [0x2753])
       @ str '' ['' @ or_default (body.requestType b) (str ''General'') @ str ''] ''
       @ (if trim (or_default (firstName b) [] @ str '' '' @ or_default (lastName b) []) = []
          then str ''Unnamed Request''
          else trim (or_default (firstName b) [] @ str '' '' @ or_default (lastName b) []))"
proof -
  have "map_of Object_prototype (formData.requestType (parseFormData b)) = None"
    using assms by (simp add: map_of_eq_None_iff)
  moreover have "list_all (\<lambda>(k, v). v \<noteq> []) EMOJI_MAP"
    by (simp add: EMOJI_MAP_def)
  then have "map_of EMOJI_MAP k = Some v \<Longrightarrow> v \<noteq> []" for k v
    by (auto simp: list_all_iff dest!: map_of_SomeD)
  ultimately have "ToString (emoji (parseFormData b))
      = (case map_of EMOJI_MAP (formData.requestType (parseFormData b)) of
          Some marker \<Rightarrow> marker | None \<Rightarrow> [0x2753])"
    by (auto simp: emoji_def getProperty_def js_or_def fallback_marker [unfolded getProperty_def]
        split: option.splits)
  then show ?thesis
    by (simp add: taskData_def) (simp add: parseFormData_def Let_def)
qed

text \<open>
  C4. The title of every request should be a marker, the request type in square brackets
  and the full name. For Sarah Johnson's request of type \<open>constructor\<close>, which is not a
  key of \<open>EMOJI_MAP\<close>, the title begins with the source text of the inherited function
  \<open>Object\<close>: it is not the title with the marker of \<open>Something else?\<close>, and no marker of
  \<open>EMOJI_MAP\<close> is a prefix of it.
\<close>

theorem title_inherited_key:
  "map_of EMOJI_MAP (str ''constructor'') = None
   \<and> task_data.name (taskData pid sid (parseFormData
        (no_fields_body\<lparr>firstName := Some (str ''Sarah''), lastName := Some (str ''Johnson''),
                        body.requestType := Some (str ''constructor'')\<rparr>)))
     = str ''function Object() { [native code] } [constructor] Sarah Johnson''
   \<and> task_data.name (taskData pid sid (parseFormData
        (no_fields_body\<lparr>firstName := Some (str ''Sarah''), lastName := Some (str ''Johnson''),
                        body.requestType := Some (str ''constructor'')\<rparr>)))
     \<noteq> [0x2753] @ str '' [constructor] Sarah Johnson''
   \<and> filter (\<lambda>marker. take (length marker) (task_data.name (taskData pid sid (parseFormData
        (no_fields_body\<lparr>firstName := Some (str ''Sarah''), lastName := Some (str ''Johnson''),
                        body.requestType := Some (str ''constructor'')\<rparr>)))) = marker)
       (map snd EMOJI_MAP) = []"
  by (simp add: eval_defs)

section \<open>Placement\<close>

text \<open>
  C5, as the code has it. When the section id of a request is \<open>null\<close>, the task data has
  no \<open>memberships\<close> property at all: the placement is left out, not sent as \<open>null\<close>.
  The task data still names the project in \<open>projects\<close>, and that alone places the task.
\<close>

theorem placement_when_unresolved:
  "(sectionId_gid fd = Null \<longrightarrow>
      memberships (taskData_gid pid fd) = None \<and> projects (taskData_gid pid fd) = [pid])
   \<and> (sectionId_byName reply fd = Null \<longrightarrow>
      memberships (taskData_byName pid reply fd) = None
      \<and> projects (taskData_byName pid reply fd) = [pid])"
  by (simp add: taskData_gid_def taskData_byName_def taskData_def)

theorem placement_when_unresolved_witness:
  "sectionId_gid (parseFormData no_fields_body) = Null
   \<and> sectionId_byName (Rejected []) (parseFormData no_fields_body) = Null
   \<and> memberships (taskData_gid (Str (str ''1200000000000001'')) (parseFormData no_fields_body)) = None
   \<and> projects (taskData_gid (Str (str ''1200000000000001'')) (parseFormData no_fields_body))
       = [Str (str ''1200000000000001'')]
   \<and> memberships (taskData_byName (Str (str ''1200000000000001'')) (Rejected [])
         (parseFormData no_fields_body)) = None"
proof -
  have g: "sectionId_gid (parseFormData no_fields_body) = Null"
    by (simp add: eval_defs)
  have n: "sectionId_byName (Rejected []) (parseFormData no_fields_body) = Null"
    by (simp add: eval_defs)
  show ?thesis
    using g n placement_when_unresolved [where fd = "parseFormData no_fields_body"
        and pid = "Str (str ''1200000000000001'')" and reply = "Rejected []"]
    by simp
qed

text \<open>
  The body without fields has the request type \<open>General\<close>, its section id is \<open>null\<close>,
  and its task data carries no placement property.
\<close>

theorem placement_omitted_counterexample:
  "\<not> (sectionId_gid (parseFormData no_fields_body) = Null
        \<longrightarrow> memberships (taskData_gid (Str (str ''1200000000000001''))
              (parseFormData no_fields_body)) \<noteq> None)"
  by (simp add: eval_defs)

section \<open>Priority\<close>

lemma priority_unmapped:
  assumes "formData.priority fd \<notin> fst ` set priorityMap"
    and "formData.priority fd \<notin> fst ` set Object_prototype"
  shows "task_data.priority (taskData pid sid fd) = Str (str ''medium'')"
  using assms by (simp add: taskData_def getProperty_unmapped js_or_def)

lemma priority_absent:
  "body.priority b = None \<or> body.priority b = Some [] \<Longrightarrow>
   task_data.priority (taskData pid sid (parseFormData b)) = Str (str ''medium'')"
  by (auto simp: eval_defs)

text \<open>
  C6. A priority label that is absent or not a key of \<open>priorityMap\<close> should give the
  priority \<open>medium\<close>. The label \<open>constructor\<close> is not a key of \<open>priorityMap\<close>, yet the
  read finds the inherited \<open>Object.prototype.constructor\<close>, a truthy value, and the
  priority of the task data is the function \<open>Object\<close>.
\<close>

theorem priority_inherited_key:
  "map_of priorityMap (str ''constructor'') = None
   \<and> task_data.priority (taskData pid sid
         (parseFormData (no_fields_body\<lparr>body.priority := Some (str ''constructor'')\<rparr>)))
       = Native (str ''Object'')"
  by (simp add: eval_defs)

text \<open>
  C7. Two requests that differ only in the priority label, \<open>Urgent\<close> in one and \<open>High\<close>
  in the other, get the same priority, \<open>high\<close>.
\<close>

theorem urgent_collapses_to_high:
  "task_data.priority (taskData pid sid (fd\<lparr>formData.priority := str ''Urgent''\<rparr>))
     = task_data.priority (taskData pid sid (fd\<lparr>formData.priority := str ''High''\<rparr>))
   \<and> task_data.priority (taskData pid sid (fd\<lparr>formData.priority := str ''High''\<rparr>))
     = Str (str ''high'')
   \<and> task_data.priority (taskData pid sid (parseFormData (b\<lparr>body.priority := Some (str ''Urgent'')\<rparr>)))
     = task_data.priority (taskData pid sid (parseFormData (b\<lparr>body.priority := Some (str ''High'')\<rparr>)))"
  by (simp add: taskData_def parseFormData_def or_default_def getProperty_def js_or_def
      priorityMap_def str_def)

section \<open>The worked example\<close>

text \<open>
  C8. For Sarah Johnson's request of type \<open>Feature Requests\<close> with priority \<open>High\<close> the
  title is the sparkles marker (U+2728) followed by \<open>[Feature Requests] Sarah Johnson\<close>,
  the section is the entry of \<open>SECTION_MAP\<close> for \<open>Feature Requests\<close> (the GID in one
  variant; in the other the section name, and the id the tracker lists under that name)
  and the priority is \<open>high\<close>.
\<close>

theorem sarah_johnson_example:
  "task_data.name (taskData_gid pid (parseFormData sarah))
     = [0x2728] @ str '' [Feature Requests] Sarah Johnson''
   \<and> map_of SECTION_MAP_gid (str ''Feature Requests'') = Some (str ''1211512835831274'')
   \<and> memberships (taskData_gid pid (parseFormData sarah))
     = Some [\<lparr> project = pid, section = Str (str ''1211512835831274'') \<rparr>]
   \<and> task_data.priority (taskData_gid pid (parseFormData sarah)) = Str (str ''high'')
   \<and> task_data.name (taskData_byName pid reply (parseFormData sarah))
     = [0x2728] @ str '' [Feature Requests] Sarah Johnson''
   \<and> sectionName (parseFormData sarah) = Str ([0x2728] @ str '' Feature Requests'')
   \<and> map_of SECTION_MAP_byName (str ''Feature Requests'')
     = Some ([0x2728] @ str '' Feature Requests'')
   \<and> memberships (taskData_byName pid
        (Resolved [\<lparr> asana_section.name = [0x2728] @ str '' Feature Requests'', gid = g \<rparr>])
        (parseFormData sarah))
     = (if g = [] then None else Some [\<lparr> project = pid, section = Str g \<rparr>])
   \<and> task_data.priority (taskData_byName pid reply (parseFormData sarah)) = Str (str ''high'')"
  by (simp add: eval_defs)

section \<open>What the task data depends on\<close>

text \<open>
  C9, as the code has it. In the variant with GIDs the task data handed to the tracker is
  the same whatever the tracker replies. In \<open>server.js\<close> name, notes, priority and
  projects do not depend on the section listing fetched during the call, and two calls
  with the same request post the same task data whenever the two listings resolve the
  section name of the request to the same id.
\<close>

theorem compose_deterministic:
  "fst (createAsanaTask_gid pid postA fd) = fst (createAsanaTask_gid pid postB fd)
   \<and> task_data.name (taskData_byName pid replyA fd) = task_data.name (taskData_byName pid replyB fd)
   \<and> task_data.notes (taskData_byName pid replyA fd) = task_data.notes (taskData_byName pid replyB fd)
   \<and> task_data.priority (taskData_byName pid replyA fd)
       = task_data.priority (taskData_byName pid replyB fd)
   \<and> projects (taskData_byName pid replyA fd) = projects (taskData_byName pid replyB fd)
   \<and> (getSectionIdByName replyA (sectionName fd) = getSectionIdByName replyB (sectionName fd)
        \<longrightarrow> fst (createAsanaTask_byName pid replyA postA fd)
            = fst (createAsanaTask_byName pid replyB postB fd))"
  by (simp add: createAsanaTask_gid_def createAsanaTask_byName_def Let_def taskData_byName_def
      taskData_def sectionId_byName_def)

theorem compose_deterministic_witness:
  "getSectionIdByName
      (Resolved [\<lparr> asana_section.name = [0x2728] @ str '' Feature Requests'',
                   gid = str ''1211512835831274'' \<rparr>])
      (sectionName (parseFormData sarah))
   = getSectionIdByName
      (Resolved [\<lparr> asana_section.name = [0x2753] @ str '' Something Else?'',
                   gid = str ''1211512835831288'' \<rparr>,
                 \<lparr> asana_section.name = [0x2728] @ str '' Feature Requests'',
                   gid = str ''1211512835831274'' \<rparr>])
      (sectionName (parseFormData sarah))
   \<and> fst (createAsanaTask_byName (Str (str ''1200000000000001''))
        (Resolved [\<lparr> asana_section.name = [0x2728] @ str '' Feature Requests'',
                     gid = str ''1211512835831274'' \<rparr>])
        Resolved (parseFormData sarah))
     = fst (createAsanaTask_byName (Str (str ''1200000000000001''))
        (Resolved [\<lparr> asana_section.name = [0x2753] @ str '' Something Else?'',
                     gid = str ''1211512835831288'' \<rparr>,
                   \<lparr> asana_section.name = [0x2728] @ str '' Feature Requests'',
                     gid = str ''1211512835831274'' \<rparr>])
        (Rejected \<circ> task_data.name) (parseFormData sarah))"
proof -
  have h: "getSectionIdByName
      (Resolved [\<lparr> asana_section.name = [0x2728] @ str '' Feature Requests'',
                   gid = str ''1211512835831274'' \<rparr>])
      (sectionName (parseFormData sarah))
   = getSectionIdByName
      (Resolved [\<lparr> asana_section.name = [0x2753] @ str '' Something Else?'',
                   gid = str ''1211512835831288'' \<rparr>,
                 \<lparr> asana_section.name = [0x2728] @ str '' Feature Requests'',
                   gid = str ''1211512835831274'' \<rparr>])
      (sectionName (parseFormData sarah))"
    by (simp add: eval_defs)
  from compose_deterministic [where fd = "parseFormData sarah"
      and pid = "Str (str ''1200000000000001'')"
      and replyA = "Resolved [\<lparr> asana_section.name = [0x2728] @ str '' Feature Requests'',
                   gid = str ''1211512835831274'' \<rparr>]"
      and replyB = "Resolved [\<lparr> asana_section.name = [0x2753] @ str '' Something Else?'',
                   gid = str ''1211512835831288'' \<rparr>,
                 \<lparr> asana_section.name = [0x2728] @ str '' Feature Requests'',
                   gid = str ''1211512835831274'' \<rparr>]"
      and postA = Resolved and postB = "Rejected \<circ> task_data.name"] h
  show ?thesis by blast
qed

text \<open>
  The same request composed twice in \<open>server.js\<close>, once when the tracker lists the
  section and once when the listing fails: the first task data is placed in the section,
  the second is not.
\<close>

theorem compose_deterministic_counterexample:
  "taskData_byName (Str (str ''1200000000000001''))
      (Resolved [\<lparr> asana_section.name = [0x2728] @ str '' Feature Requests'',
                   gid = str ''1211512835831274'' \<rparr>])
      (parseFormData sarah)
   \<noteq> taskData_byName (Str (str ''1200000000000001'')) (Rejected (str ''Network Error''))
      (parseFormData sarah)"
  by (simp add: eval_defs)

section \<open>Empty strings\<close>

text \<open>
  C10. A field that is present and empty is normalised exactly as the absent field is.
  The trigger sends the empty string for a question that has no named value, so such a
  form submission gets the default of each missing field from end to end.
\<close>

theorem empty_string_like_absent:
  "parseFormData (b\<lparr>firstName := Some []\<rparr>) = parseFormData (b\<lparr>firstName := None\<rparr>)
   \<and> parseFormData (b\<lparr>lastName := Some []\<rparr>) = parseFormData (b\<lparr>lastName := None\<rparr>)
   \<and> parseFormData (b\<lparr>body.email := Some []\<rparr>) = parseFormData (b\<lparr>body.email := None\<rparr>)
   \<and> parseFormData (b\<lparr>body.requestType := Some []\<rparr>)
       = parseFormData (b\<lparr>body.requestType := None\<rparr>)
   \<and> parseFormData (b\<lparr>body.description := Some []\<rparr>)
       = parseFormData (b\<lparr>body.description := None\<rparr>)
   \<and> parseFormData (b\<lparr>body.priority := Some []\<rparr>) = parseFormData (b\<lparr>body.priority := None\<rparr>)
   \<and> (case onFormSubmit (Some namedValues) of
         None \<Rightarrow> False
       | Some payload \<Rightarrow>
           (namedValues (str ''First Name'') = None \<and> namedValues (str ''Last Name'') = None
              \<longrightarrow> firstName payload = Some [] \<and> lastName payload = Some []
                  \<and> formData.name (parseFormData payload) = str ''Unnamed Request'')
         \<and> (namedValues (str ''Email'') = None
              \<longrightarrow> body.email payload = Some []
                  \<and> formData.email (parseFormData payload) = str ''no-email@provided.com'')
         \<and> (namedValues (str ''Request Type'') = None
              \<longrightarrow> body.requestType payload = Some []
                  \<and> formData.requestType (parseFormData payload) = str ''General'')
         \<and> (namedValues (str ''Request Description'') = None
              \<longrightarrow> body.description payload = Some []
                  \<and> formData.description (parseFormData payload) = str ''No description provided'')
         \<and> (namedValues (str ''Priority'') = None
              \<longrightarrow> body.priority payload = Some []
                  \<and> formData.priority (parseFormData payload) = str ''Medium''))"
  by (simp add: parseFormData_def or_default_def onFormSubmit_def namedValue_def trim_blank)

theorem empty_string_like_absent_witness:
  "(case onFormSubmit (Some Map.empty) of
      None \<Rightarrow> False
    | Some payload \<Rightarrow>
        payload = \<lparr> firstName = Some [], lastName = Some [], email = Some [],
                    requestType = Some [], description = Some [], priority = Some [] \<rparr>
        \<and> parseFormData payload = parseFormData no_fields_body
        \<and> parseFormData payload =
            \<lparr> formData.name = str ''Unnamed Request'', email = str ''no-email@provided.com'',
              requestType = str ''General'', description = str ''No description provided'',
              priority = str ''Medium'' \<rparr>)"
  using empty_string_like_absent [where namedValues = Map.empty and b = no_fields_body]
  by (simp add: onFormSubmit_def namedValue_def formData.equality parseFormData_def
      or_default_def)

end
